theory Spec2Isabelle
  imports Main "HOL-Library.Sublist" "HOL-Library.Monad_Syntax"
begin

section \<open>Python string operations used by \<open>use_model.py\<close>\<close>

text \<open>
  Python strings are modelled as \<open>string\<close>, one \<open>char\<close> per code point, so the model
  covers texts whose code points are below 256 (Latin-1). \<open>isspace\<close>, \<open>strip\<close> and
  \<open>lower\<close> follow \<open>str.isspace\<close>, \<open>str.strip()\<close> and \<open>str.lower()\<close> on that range.
\<close>

definition isspace :: "char \<Rightarrow> bool" where
  "isspace c = (c \<in> set [CHR 0x09, CHR 0x0A, CHR 0x0B, CHR 0x0C, CHR 0x0D,
                          CHR 0x1C, CHR 0x1D, CHR 0x1E, CHR 0x1F, CHR 0x20,
                          CHR 0x85, CHR 0xA0])"

definition strip :: "string \<Rightarrow> string" where
  "strip s = rev (dropWhile isspace (rev (dropWhile isspace s)))"

definition lower_char :: "char \<Rightarrow> char" where
  "lower_char c =
     (let n = (of_char c :: nat)
      in if (65 \<le> n \<and> n \<le> 90) \<or> (192 \<le> n \<and> n \<le> 222 \<and> n \<noteq> 215)
         then char_of (n + 32) else c)"

definition lower :: "string \<Rightarrow> string" where
  "lower s = map lower_char s"

text \<open>\<open>sub in s\<close>: the substring test.\<close>

fun substring_in :: "string \<Rightarrow> string \<Rightarrow> bool" where
  "substring_in sub [] = (sub = [])"
| "substring_in sub (c # cs) = (prefix sub (c # cs) \<or> substring_in sub cs)"

text \<open>
  \<open>s.split(sep)\<close> scans from the left and cuts at every occurrence of \<open>sep\<close> that does
  not overlap the previous one. After a match at \<open>c # cs\<close> the scan resumes at
  \<open>drop (length sep) (c # cs)\<close>, written \<open>drop (length sep - 1) cs\<close>. Python raises
  ValueError on an empty separator, which is \<open>None\<close> in \<open>py_split\<close>.
\<close>

fun split_on :: "string \<Rightarrow> string \<Rightarrow> string list" where
  "split_on sep [] = [[]]"
| "split_on sep (c # cs) =
     (if prefix sep (c # cs) then [] # split_on sep (drop (length sep - 1) cs)
      else (let pieces = split_on sep cs in (c # hd pieces) # tl pieces))"

definition py_split :: "string \<Rightarrow> string \<Rightarrow> string list option" where
  "py_split sep s = (if sep = [] then None else Some (split_on sep s))"

section \<open>The conversation and its rendering\<close>

text \<open>A history entry is the dict \<open>{'role': ..., 'content': ...}\<close>.\<close>

record msg =
  role :: string
  content :: string

text \<open>
  Lines 112 to 119 of \<open>interactive_chat\<close>: the loop over the history appends one wrapped
  turn per entry to \<open>full_prompt\<close> (every role other than \<open>user\<close> is rendered as
  assistant), then the new user input and the open assistant marker are appended.
\<close>

fun render_history :: "string \<Rightarrow> msg list \<Rightarrow> string" where
  "render_history full_prompt [] = full_prompt"
| "render_history full_prompt (m # ms) =
     render_history
       (if role m = ''user''
        then full_prompt @ ''<|im_start|>user\<newline>'' @ content m @ ''<|im_end|>\<newline>''
        else full_prompt @ ''<|im_start|>assistant\<newline>'' @ content m @ ''<|im_end|>\<newline>'')
       ms"

definition build_full_prompt :: "msg list \<Rightarrow> string \<Rightarrow> string" where
  "build_full_prompt conversation_history user_input =
     render_history [] conversation_history
       @ ''<|im_start|>user\<newline>'' @ user_input
       @ ''<|im_end|>\<newline><|im_start|>assistant\<newline>''"

section \<open>What the program prints and calls\<close>

datatype message =
    LoadingModel string
  | FirstRunNotice
  | UsingDevice string
  | ModelLoaded
  | ErrorLoadingModel
  | Tips
  | ErrorGenerating
  | ChatBanner
  | Goodbye
  | GoodbyeInterrupted
  | ConversationCleared
  | Thinking
  | AssistantSays string
  | FailedToGenerate
  | ErrorInLoop
  | PromptEcho string
  | ResponseIs string
  | Usage

datatype dtype = Float16 | Float32

text \<open>
  The observable events of a run, in order: a line printed, a read of the console, the two
  \<open>from_pretrained\<close> calls of \<open>load_model\<close>, and the text handed to the tokenizer by
  \<open>generate_response\<close> (line 55), which is what the model then generates from.
\<close>

datatype event =
    Print message
  | ReadInput
  | TokenizerFromPretrained string
  | ModelFromPretrained string dtype string
  | Tokenize string
  | UncaughtKeyboardInterrupt

section \<open>\<open>generate_response\<close>\<close>

text \<open>
  The inference library is opaque: lines 55 to 73 (tokenize, move to the device, generate,
  decode) are a function from the formatted prompt to the decoded text, or an exception,
  or a KeyboardInterrupt, which \<open>except Exception\<close> does not catch. The sampling
  parameters \<open>max_length\<close> and \<open>temperature\<close> only reach the library, so they are
  part of that function.
\<close>

datatype 'a outcome = Returns 'a | RaisesException | RaisesKeyboardInterrupt

type_synonym provider = "string \<Rightarrow> string outcome"

text \<open>Lines 76 to 81: the assistant's part of the decoded text.\<close>

definition extract_response :: "string \<Rightarrow> string option" where
  "extract_response response = do {
     response1 \<leftarrow>
       (if substring_in ''<|im_start|>assistant\<newline>'' response
        then map_option last (py_split ''<|im_start|>assistant\<newline>'' response)
        else Some response);
     response2 \<leftarrow>
       (if substring_in ''<|im_end|>'' response1
        then map_option hd (py_split ''<|im_end|'' response1)
        else Some response1);
     Some (strip response2)
   }"

text \<open>
  The result of \<open>generate_response\<close>: the stripped text, \<open>None\<close> after an exception, or the
  KeyboardInterrupt passed on to the caller.
\<close>

datatype response = Value "string option" | KeyboardInterrupt

text \<open>Line 52: the prompt argument is wrapped as one user turn, whatever it holds.\<close>

definition formatted_prompt :: "string \<Rightarrow> string" where
  "formatted_prompt prompt =
     ''<|im_start|>user\<newline>'' @ prompt @ ''<|im_end|>\<newline><|im_start|>assistant\<newline>''"

definition generate_response :: "provider \<Rightarrow> string \<Rightarrow> event list \<times> response" where
  "generate_response provider prompt =
     (case provider (formatted_prompt prompt) of
        RaisesKeyboardInterrupt \<Rightarrow> ([Tokenize (formatted_prompt prompt)], KeyboardInterrupt)
      | RaisesException \<Rightarrow>
          ([Tokenize (formatted_prompt prompt), Print ErrorGenerating], Value None)
      | Returns decoded \<Rightarrow>
          (case extract_response decoded of
             None \<Rightarrow> ([Tokenize (formatted_prompt prompt), Print ErrorGenerating], Value None)
           | Some r \<Rightarrow> ([Tokenize (formatted_prompt prompt)], Value (Some r))))"

section \<open>\<open>interactive_chat\<close>\<close>

text \<open>
  The loop is at \<open>AwaitingInput\<close> whenever it is about to call \<open>input()\<close> and \<open>Terminated\<close>
  after a \<open>break\<close>. One iteration is driven by what \<open>input()\<close> does (a line, a
  KeyboardInterrupt, or another exception such as EOFError) and by the provider's
  behaviour should the iteration call it.
\<close>

datatype loop_state = AwaitingInput | Terminated

datatype console = Line string | CtrlC | InputFails

record chat =
  loop :: loop_state
  conversation_history :: "msg list"
  trace :: "event list"

definition emit :: "event list \<Rightarrow> chat \<Rightarrow> chat" where
  "emit evs st = st\<lparr>trace := trace st @ evs\<rparr>"

fun loop_body :: "console \<times> provider \<Rightarrow> chat \<Rightarrow> chat" where
  "loop_body (CtrlC, provider) st =
     emit [ReadInput, Print GoodbyeInterrupted] (st\<lparr>loop := Terminated\<rparr>)"
| "loop_body (InputFails, provider) st = emit [ReadInput, Print ErrorInLoop] st"
| "loop_body (Line typed, provider) st =
     (let user_input = strip typed in
      if lower user_input = ''quit''
      then emit [ReadInput, Print Goodbye] (st\<lparr>loop := Terminated\<rparr>)
      else if lower user_input = ''clear''
      then emit [ReadInput, Print ConversationCleared] (st\<lparr>conversation_history := []\<rparr>)
      else if user_input = [] then emit [ReadInput] st
      else
        (let full_prompt = build_full_prompt (conversation_history st) user_input in
         case generate_response provider full_prompt of
           (evs, KeyboardInterrupt) \<Rightarrow>
             emit ([ReadInput, Print Thinking] @ evs @ [Print GoodbyeInterrupted])
               (st\<lparr>loop := Terminated\<rparr>)
         | (evs, Value r) \<Rightarrow>
             (case r of
                Some response \<Rightarrow>
                  if response \<noteq> []
                  then emit ([ReadInput, Print Thinking] @ evs @ [Print (AssistantSays response)])
                         (st\<lparr>conversation_history :=
                               conversation_history st
                                 @ [\<lparr>role = ''user'', content = user_input\<rparr>,
                                    \<lparr>role = ''assistant'', content = response\<rparr>]\<rparr>)
                  else emit ([ReadInput, Print Thinking] @ evs @ [Print FailedToGenerate]) st
              | None \<Rightarrow>
                  emit ([ReadInput, Print Thinking] @ evs @ [Print FailedToGenerate]) st)))"

text \<open>\<open>while True\<close> over the console's inputs: the loop stops at the first \<open>break\<close>.\<close>

fun run_loop :: "(console \<times> provider) list \<Rightarrow> chat \<Rightarrow> chat" where
  "run_loop [] st = st"
| "run_loop (io # rest) st =
     (if loop st = Terminated then st else run_loop rest (loop_body io st))"

definition initial_chat :: chat where
  "initial_chat =
     \<lparr>loop = AwaitingInput, conversation_history = [], trace = [Print ChatBanner]\<rparr>"

definition interactive_chat :: "(console \<times> provider) list \<Rightarrow> chat" where
  "interactive_chat inputs = run_loop inputs initial_chat"

section \<open>\<open>load_model\<close> and \<open>main\<close>\<close>

datatype model_handle = Model
datatype tokenizer_handle = Tokenizer

text \<open>
  The environment of one run: whether CUDA is there, whether each \<open>from_pretrained\<close> call
  returns (\<open>True\<close>) or raises, the provider's behaviour in single-shot mode and the console
  session of interactive mode.
\<close>

record world =
  cuda_is_available :: bool
  tokenizer_loads :: "string \<Rightarrow> bool"
  model_loads :: "string \<Rightarrow> string \<Rightarrow> bool"
  single_shot :: provider
  session :: "(console \<times> provider) list"

text \<open>Lines 18 and 19: \<open>auto\<close> becomes \<open>cuda\<close> when it is available, \<open>cpu\<close> otherwise.\<close>

definition resolve_device :: "world \<Rightarrow> string \<Rightarrow> string" where
  "resolve_device w device =
     (if device = ''auto'' then (if cuda_is_available w then ''cuda'' else ''cpu'')
      else device)"

definition load_model ::
  "world \<Rightarrow> string \<Rightarrow> string
     \<Rightarrow> event list \<times> model_handle option \<times> tokenizer_handle option" where
  "load_model w model_name device0 =
     (let device = resolve_device w device0;
          announce = [Print (LoadingModel model_name), Print FirstRunNotice,
                      Print (UsingDevice device)];
          failure = [Print ErrorLoadingModel, Print Tips]
      in if \<not> tokenizer_loads w model_name
         then (announce @ [TokenizerFromPretrained model_name] @ failure, None, None)
         else if \<not> model_loads w model_name device
         then (announce
                 @ [TokenizerFromPretrained model_name,
                    ModelFromPretrained model_name
                      (if device = ''cuda'' then Float16 else Float32) device]
                 @ failure, None, None)
         else (announce
                 @ [TokenizerFromPretrained model_name,
                    ModelFromPretrained model_name
                      (if device = ''cuda'' then Float16 else Float32) device,
                    Print ModelLoaded],
               Some Model, Some Tokenizer))"

record args =
  arg_model :: string
  arg_device :: string
  arg_prompt :: "string option"
  arg_interactive :: bool

text \<open>\<open>if args.prompt:\<close> holds for a prompt that is given and not empty.\<close>

definition main :: "world \<Rightarrow> args \<Rightarrow> event list" where
  "main w a =
     (case load_model w (arg_model a) (arg_device a) of
        (loading, model, tokenizer) \<Rightarrow>
          if model = None \<or> tokenizer = None then loading
          else if arg_prompt a \<noteq> None \<and> arg_prompt a \<noteq> Some []
          then
            (case generate_response (single_shot w) (the (arg_prompt a)) of
               (evs, KeyboardInterrupt) \<Rightarrow>
                 loading @ [Print (PromptEcho (the (arg_prompt a)))] @ evs
                   @ [UncaughtKeyboardInterrupt]
             | (evs, Value r) \<Rightarrow>
                 loading @ [Print (PromptEcho (the (arg_prompt a)))] @ evs
                   @ (case r of
                        Some response \<Rightarrow>
                          if response \<noteq> [] then [Print (ResponseIs response)]
                          else [Print FailedToGenerate]
                      | None \<Rightarrow> [Print FailedToGenerate]))
          else if arg_interactive a
          then loading @ trace (interactive_chat (session w))
          else loading @ [Print Usage])"

section \<open>Reading a trace\<close>

text \<open>The texts handed to the tokenizer during a run, oldest first.\<close>

fun tokenized :: "event \<Rightarrow> string list" where
  "tokenized (Tokenize s) = [s]"
| "tokenized _ = []"

definition submitted :: "event list \<Rightarrow> string list" where
  "submitted evs = concat (map tokenized evs)"

section \<open>Notions the specification uses\<close>





text \<open>
  The Response Extractor as the specification words it: everything after the last
  assistant-start marker, cut at the end marker \<open><|im_end|>\<close> when there is one; the
  text as it is when the assistant-start marker is absent; trimmed in both cases.
\<close>

fun after_last :: "string \<Rightarrow> string \<Rightarrow> string" where
  "after_last marker [] = []"
| "after_last marker (c # cs) =
     (if substring_in marker cs then after_last marker cs
      else if prefix marker (c # cs) then drop (length marker) (c # cs)
      else c # cs)"

fun before_first :: "string \<Rightarrow> string \<Rightarrow> string" where
  "before_first marker [] = []"
| "before_first marker (c # cs) =
     (if prefix marker (c # cs) then [] else c # before_first marker cs)"

definition extractor_as_specified :: "string \<Rightarrow> string" where
  "extractor_as_specified raw =
     strip (if substring_in ''<|im_start|>assistant\<newline>'' raw
            then before_first ''<|im_end|>''
                   (after_last ''<|im_start|>assistant\<newline>'' raw)
            else raw)"

section \<open>Facts about the string operations\<close>

text \<open>\<open>split\<close> always returns at least one piece, so \<open>[0]\<close> and \<open>[-1]\<close> never fail.\<close>

lemma split_on_not_Nil: "split_on sep s \<noteq> []"
  by (induction sep s rule: split_on.induct) (simp_all add: Let_def)

lemma strip_hi: "strip ''hi'' = ''hi''"
  by (simp add: strip_def isspace_def)

lemma lower_hi: "lower ''hi'' = ''hi''"
  by code_simp




section \<open>The rendered prompt, turn by turn\<close>



section \<open>Tags in a rendered turn\<close>














section \<open>Facts about \<open>extract_response\<close>\<close>

lemma extract_response_hello_there:
  "extract_response ''...<|im_start|>assistant\<newline>Hello there<|im_end|>''
     = Some ''Hello there''"
  by (simp add: extract_response_def py_split_def strip_def isspace_def)

section \<open>One iteration of the loop and the history\<close>

lemma loop_body_history:
  "conversation_history (loop_body io st) = conversation_history st
   \<or> conversation_history (loop_body io st) = []
   \<or> (\<exists>u r. conversation_history (loop_body io st)
               = conversation_history st
                   @ [\<lparr>role = ''user'', content = u\<rparr>, \<lparr>role = ''assistant'', content = r\<rparr>])"
proof (cases io)
  case (Pair c provider)
  show ?thesis
  proof (cases c)
    case (Line typed)
    with Pair show ?thesis
      by (simp add: emit_def Let_def split: prod.splits response.splits option.splits)
  next
    case CtrlC
    with Pair show ?thesis by (simp add: emit_def)
  next
    case InputFails
    with Pair show ?thesis by (simp add: emit_def)
  qed
qed

lemma loop_body_even:
  assumes "even (length (conversation_history st))"
  shows "even (length (conversation_history (loop_body io st)))"
  using loop_body_history [of io st] assms by auto

lemma run_loop_even:
  "even (length (conversation_history st))
   \<Longrightarrow> even (length (conversation_history (run_loop ios st)))"
  by (induction ios arbitrary: st) (simp_all add: loop_body_even)

section \<open>Properties of the specification, checked on the code\<close>

text \<open>
  C1, as the code has it: when the input triggers generation and the provider call raises,
  the iteration leaves the history exactly as it was (neither the user turn nor an
  assistant turn is appended), reports the failure, and the loop is back at
  \<open>AwaitingInput\<close>. The two turns are appended together, and only in the branch of a
  non-empty response (lines 126 to 131).
\<close>

theorem generation_failure_keeps_history:
  assumes "loop st = AwaitingInput"
    and "strip typed \<noteq> []"
    and "lower (strip typed) \<noteq> ''quit''"
    and "lower (strip typed) \<noteq> ''clear''"
    and "provider (formatted_prompt (build_full_prompt (conversation_history st) (strip typed)))
           = RaisesException"
  shows "conversation_history (loop_body (Line typed, provider) st) = conversation_history st
         \<and> loop (loop_body (Line typed, provider) st) = AwaitingInput
         \<and> trace (loop_body (Line typed, provider) st)
             = trace st
                 @ [ReadInput, Print Thinking,
                    Tokenize (formatted_prompt
                                (build_full_prompt (conversation_history st) (strip typed))),
                    Print ErrorGenerating, Print FailedToGenerate]"
  using assms by (simp add: generate_response_def emit_def Let_def)

theorem generation_failure_keeps_history_witness:
  "conversation_history
     (loop_body (Line ''hi'', \<lambda>p. RaisesException)
        \<lparr>loop = AwaitingInput,
         conversation_history = [\<lparr>role = ''user'', content = ''a''\<rparr>,
                                 \<lparr>role = ''assistant'', content = ''b''\<rparr>],
         trace = []\<rparr>)
     = [\<lparr>role = ''user'', content = ''a''\<rparr>, \<lparr>role = ''assistant'', content = ''b''\<rparr>]
   \<and> loop
       (loop_body (Line ''hi'', \<lambda>p. RaisesException)
          \<lparr>loop = AwaitingInput,
           conversation_history = [\<lparr>role = ''user'', content = ''a''\<rparr>,
                                   \<lparr>role = ''assistant'', content = ''b''\<rparr>],
           trace = []\<rparr>) = AwaitingInput"
proof -
  have a: "strip ''hi'' \<noteq> []" by (simp add: strip_hi)
  have b: "lower (strip ''hi'') \<noteq> ''quit''" by (simp add: strip_hi lower_hi)
  have c: "lower (strip ''hi'') \<noteq> ''clear''" by (simp add: strip_hi lower_hi)
  show ?thesis
    using generation_failure_keeps_history [OF _ a b c, of _ "\<lambda>p. RaisesException"]
    by simp
qed

text \<open>
  The claim as first stated fails: after a session whose only input is \<open>hi\<close> and whose
  provider call raises, the history is empty, so it holds no user turn.
\<close>

theorem failure_appends_user_turn_counterexample:
  "conversation_history (interactive_chat [(Line ''hi'', \<lambda>p. RaisesException)]) = []
   \<and> \<lparr>role = ''user'', content = ''hi''\<rparr>
       \<notin> set (conversation_history (interactive_chat [(Line ''hi'', \<lambda>p. RaisesException)]))
   \<and> loop (interactive_chat [(Line ''hi'', \<lambda>p. RaisesException)]) = AwaitingInput"
  by (simp add: interactive_chat_def initial_chat_def strip_hi lower_hi
        generate_response_def emit_def Let_def)

text \<open>
  C2: for an input that is neither empty nor a command, the iteration hands exactly one text
  to the tokenizer, and it is not the rendered conversation: it is the rendered
  conversation (which already ends in the open assistant marker) wrapped once more as a
  user turn and followed by a second open assistant marker.
\<close>

theorem interactive_prompt_wrapped_twice:
  assumes "strip typed \<noteq> []"
    and "lower (strip typed) \<noteq> ''quit''"
    and "lower (strip typed) \<noteq> ''clear''"
  shows "submitted (trace (loop_body (Line typed, provider) st))
           = submitted (trace st)
               @ [''<|im_start|>user\<newline>''
                    @ build_full_prompt (conversation_history st) (strip typed)
                    @ ''<|im_end|>\<newline><|im_start|>assistant\<newline>'']
         \<and> ''<|im_start|>user\<newline>''
               @ build_full_prompt (conversation_history st) (strip typed)
               @ ''<|im_end|>\<newline><|im_start|>assistant\<newline>''
             \<noteq> build_full_prompt (conversation_history st) (strip typed)
         \<and> suffix ''<|im_start|>assistant\<newline>''
              (build_full_prompt (conversation_history st) (strip typed))"
proof -
  let ?p = "build_full_prompt (conversation_history st) (strip typed)"
  obtain evs r where g: "generate_response provider ?p = (evs, r)"
    by (cases "generate_response provider ?p")
  then have "submitted evs = [formatted_prompt ?p]"
    by (auto simp: generate_response_def submitted_def
          split: outcome.splits option.splits)
  with g assms have "submitted (trace (loop_body (Line typed, provider) st))
               = submitted (trace st) @ [formatted_prompt ?p]"
    by (cases r) (simp_all add: emit_def Let_def submitted_def split: option.splits)
  moreover have "length (formatted_prompt ?p) \<noteq> length ?p"
    by (simp add: formatted_prompt_def)
  then have "formatted_prompt ?p \<noteq> ?p"
    by metis
  moreover have "suffix ''<|im_start|>assistant\<newline>'' ?p"
    by (simp add: build_full_prompt_def suffix_def)
  ultimately show ?thesis
    by (simp add: formatted_prompt_def)
qed

theorem interactive_prompt_wrapped_twice_witness:
  "submitted (trace (loop_body (Line ''hi'', \<lambda>p. Returns p) initial_chat))
     = [''<|im_start|>user\<newline><|im_start|>user\<newline>hi<|im_end|>\<newline><|im_start|>assistant\<newline><|im_end|>\<newline><|im_start|>assistant\<newline>'']"
proof -
  have a: "strip ''hi'' \<noteq> []" by (simp add: strip_hi)
  have b: "lower (strip ''hi'') \<noteq> ''quit''" by (simp add: strip_hi lower_hi)
  have c: "lower (strip ''hi'') \<noteq> ''clear''" by (simp add: strip_hi lower_hi)
  show ?thesis
    using interactive_prompt_wrapped_twice [OF a b c, of "\<lambda>p. Returns p" initial_chat]
    by (simp add: initial_chat_def submitted_def build_full_prompt_def strip_hi)
qed

text \<open>
  C3, as the code has it: when neither the assistant-start marker nor the end marker
  \<open><|im_end|>\<close> occurs in the decoded text, \<open>extract_response\<close> returns the text
  unchanged except for the stripped whitespace. The test for the end marker (line 78) does
  not depend on the test for the assistant-start marker (line 76).
\<close>

theorem no_markers_returns_stripped_input:
  assumes "\<not> substring_in ''<|im_start|>assistant\<newline>'' raw"
    and "\<not> substring_in ''<|im_end|>'' raw"
  shows "extract_response raw = Some (strip raw)"
  using assms by (simp add: extract_response_def)

theorem no_markers_returns_stripped_input_witness:
  "extract_response ''  plain text\<newline>'' = Some ''plain text''"
proof -
  have a: "\<not> substring_in ''<|im_start|>assistant\<newline>'' ''  plain text\<newline>''"
    by simp
  have b: "\<not> substring_in ''<|im_end|>'' ''  plain text\<newline>''"
    by simp
  from no_markers_returns_stripped_input [OF a b] show ?thesis
    by (simp add: strip_def isspace_def)
qed

text \<open>
  The claim as first stated fails: \<open>foo<|im_end|>bar\<close> holds no assistant-start marker and
  no whitespace to strip, and \<open>extract_response\<close> returns \<open>foo\<close>.
\<close>

theorem no_marker_returns_input_counterexample:
  "\<not> substring_in ''<|im_start|>assistant\<newline>'' ''foo<|im_end|>bar''
   \<and> strip ''foo<|im_end|>bar'' = ''foo<|im_end|>bar''
   \<and> extract_response ''foo<|im_end|>bar'' = Some ''foo''
   \<and> extract_response ''foo<|im_end|>bar'' \<noteq> Some (strip ''foo<|im_end|>bar'')"
  by (simp add: extract_response_def py_split_def strip_def isspace_def)

text \<open>
  C4: the claim is that the text after the last assistant-start marker is cut at the end
  marker \<open><|im_end|>\<close>. Line 78 tests for \<open><|im_end|>\<close> and line 79 splits on
  \<open><|im_end|\<close>, without the closing \<open>>\<close>: on a text with \<open><|im_end|\<close> before the
  first end marker the code returns less than the extractor as specified.
\<close>

theorem extract_response_cuts_at_unclosed_end_marker:
  "extract_response ''<|im_start|>assistant\<newline>a<|im_end|b<|im_end|>c'' = Some ''a''
   \<and> extractor_as_specified ''<|im_start|>assistant\<newline>a<|im_end|b<|im_end|>c''
       = ''a<|im_end|b''"
  by (simp add: extract_response_def extractor_as_specified_def py_split_def strip_def
        isspace_def)




text \<open>
  C6: the history has even length whenever the loop awaits input. \<open>interactive_chat\<close> is
  taken after any sequence of inputs and provider behaviours, so the statement covers the
  start, every command and every generation attempt. The reason is the second part: one
  iteration keeps the history, empties it, or appends a user turn and an assistant turn
  together.
\<close>

theorem history_length_even:
  "even (length (conversation_history (interactive_chat inputs)))
   \<and> (\<forall>io st.
        conversation_history (loop_body io st) = conversation_history st
        \<or> conversation_history (loop_body io st) = []
        \<or> (\<exists>u r. conversation_history (loop_body io st)
                    = conversation_history st
                        @ [\<lparr>role = ''user'', content = u\<rparr>,
                           \<lparr>role = ''assistant'', content = r\<rparr>]))"
  using loop_body_history
  by (simp add: interactive_chat_def initial_chat_def run_loop_even)

text \<open>
  C7: from the empty history, one round trip with the input \<open>hi\<close> and a decoded text from
  which \<open>hello\<close> is extracted leaves exactly the two turns user \<open>hi\<close>, assistant
  \<open>hello\<close>, in that order.
\<close>

theorem one_round_trip:
  assumes "provider (formatted_prompt (build_full_prompt [] ''hi'')) = Returns decoded"
    and "extract_response decoded = Some ''hello''"
  shows "conversation_history (interactive_chat [(Line ''hi'', provider)])
           = [\<lparr>role = ''user'', content = ''hi''\<rparr>, \<lparr>role = ''assistant'', content = ''hello''\<rparr>]
         \<and> length (conversation_history (interactive_chat [(Line ''hi'', provider)])) = 2
         \<and> loop (interactive_chat [(Line ''hi'', provider)]) = AwaitingInput"
  using assms
  by (simp add: interactive_chat_def initial_chat_def strip_hi lower_hi
        generate_response_def emit_def Let_def)

theorem one_round_trip_witness:
  "conversation_history
     (interactive_chat
        [(Line ''hi'', \<lambda>p. Returns (p @ ''hello<|im_end|>''))])
     = [\<lparr>role = ''user'', content = ''hi''\<rparr>, \<lparr>role = ''assistant'', content = ''hello''\<rparr>]"
proof -
  have "extract_response
          (formatted_prompt (build_full_prompt [] ''hi'') @ ''hello<|im_end|>'')
        = Some ''hello''"
    by (simp add: extract_response_def formatted_prompt_def build_full_prompt_def
          py_split_def strip_def isspace_def)
  then show ?thesis
    using one_round_trip [of "\<lambda>p. Returns (p @ ''hello<|im_end|>'')"
                               "formatted_prompt (build_full_prompt [] ''hi'') @ ''hello<|im_end|>''"]
    by simp
qed

text \<open>
  C8: whatever the history holds, the clear command (any spelling that strips and
  lower-cases to \<open>clear\<close>) empties it; the loop is back at \<open>AwaitingInput\<close>, and the
  iteration only reads the input and prints the confirmation, so nothing is handed to the
  provider.
\<close>

theorem clear_resets_history:
  assumes "loop st = AwaitingInput"
    and "lower (strip typed) = ''clear''"
  shows "conversation_history (loop_body (Line typed, provider) st) = []
         \<and> loop (loop_body (Line typed, provider) st) = AwaitingInput
         \<and> trace (loop_body (Line typed, provider) st)
             = trace st @ [ReadInput, Print ConversationCleared]
         \<and> submitted (trace (loop_body (Line typed, provider) st)) = submitted (trace st)"
  using assms by (simp add: emit_def submitted_def Let_def)

theorem clear_resets_history_witness:
  "conversation_history
     (loop_body (Line '' Clear '', \<lambda>p. Returns p)
        \<lparr>loop = AwaitingInput,
         conversation_history = [\<lparr>role = ''user'', content = ''hi''\<rparr>,
                                 \<lparr>role = ''assistant'', content = ''hello''\<rparr>],
         trace = []\<rparr>) = []
   \<and> loop
       (loop_body (Line '' Clear '', \<lambda>p. Returns p)
          \<lparr>loop = AwaitingInput,
           conversation_history = [\<lparr>role = ''user'', content = ''hi''\<rparr>,
                                   \<lparr>role = ''assistant'', content = ''hello''\<rparr>],
           trace = []\<rparr>) = AwaitingInput"
proof -
  have "lower (strip '' Clear '') = ''clear''"
    by code_simp
  from clear_resets_history [OF _ this] show ?thesis
    by simp
qed

text \<open>
  C9: the empty history with the new user input \<open>hi\<close> renders as the wrapped \<open>hi\<close>
  followed by the open assistant marker, and nothing else.
\<close>

theorem render_empty_hi:
  "build_full_prompt [] ''hi''
     = ''<|im_start|>user\<newline>hi<|im_end|>\<newline><|im_start|>assistant\<newline>''"
  by (simp add: build_full_prompt_def)

text \<open>
  C10: when the tokenizer or the model fails to load, the run is the announcement, one
  attempt of each \<open>from_pretrained\<close> call reached, the error line and the tips, and then
  it ends: nothing is handed to the tokenizer, the chat banner is never printed, the console
  is never read and no prompt is echoed.
\<close>

theorem load_failure_ends_run:
  assumes "\<not> tokenizer_loads w (arg_model a)
           \<or> \<not> model_loads w (arg_model a) (resolve_device w (arg_device a))"
  shows "main w a
           = [Print (LoadingModel (arg_model a)), Print FirstRunNotice,
              Print (UsingDevice (resolve_device w (arg_device a)))]
             @ (if tokenizer_loads w (arg_model a)
                then [TokenizerFromPretrained (arg_model a),
                      ModelFromPretrained (arg_model a)
                        (if resolve_device w (arg_device a) = ''cuda'' then Float16 else Float32)
                        (resolve_device w (arg_device a))]
                else [TokenizerFromPretrained (arg_model a)])
             @ [Print ErrorLoadingModel, Print Tips]
         \<and> submitted (main w a) = []
         \<and> Print ChatBanner \<notin> set (main w a)
         \<and> ReadInput \<notin> set (main w a)
         \<and> (\<forall>p. Print (PromptEcho p) \<notin> set (main w a))"
  using assms
  by (auto simp: main_def load_model_def Let_def submitted_def)

theorem load_failure_ends_run_witness:
  "main \<lparr>cuda_is_available = False, tokenizer_loads = (\<lambda>m. True),
         model_loads = (\<lambda>m d. False), single_shot = (\<lambda>p. Returns p),
         session = [(Line ''hi'', \<lambda>p. Returns p)]\<rparr>
        \<lparr>arg_model = ''NousResearch/Nous-Hermes-2-Mistral-7B-DPO'', arg_device = ''auto'',
         arg_prompt = None, arg_interactive = True\<rparr>
     = [Print (LoadingModel ''NousResearch/Nous-Hermes-2-Mistral-7B-DPO''),
        Print FirstRunNotice, Print (UsingDevice ''cpu''),
        TokenizerFromPretrained ''NousResearch/Nous-Hermes-2-Mistral-7B-DPO'',
        ModelFromPretrained ''NousResearch/Nous-Hermes-2-Mistral-7B-DPO'' Float32 ''cpu'',
        Print ErrorLoadingModel, Print Tips]"
  using load_failure_ends_run
          [of "\<lparr>cuda_is_available = False, tokenizer_loads = (\<lambda>m. True),
                model_loads = (\<lambda>m d. False), single_shot = (\<lambda>p. Returns p),
                session = [(Line ''hi'', \<lambda>p. Returns p)]\<rparr>"
              "\<lparr>arg_model = ''NousResearch/Nous-Hermes-2-Mistral-7B-DPO'', arg_device = ''auto'',
                arg_prompt = None, arg_interactive = True\<rparr>"]
  by (simp add: resolve_device_def)

end
